theory Spec2Isabelle
  imports Main "HOL-Library.List_Lexorder" "HOL-Library.AList"
begin

section \<open>Python values used by \<^verbatim>\<open>dataloaders.py\<close>\<close>

text \<open>
  The module \<^verbatim>\<open>src/hc11_functions/dataloaders.py\<close> defines two sequences,
  \<^verbatim>\<open>Tarloader\<close> (sessions) and \<^verbatim>\<open>Dataloader\<close> (groups of one session).
  Every exception the code can raise is a value of \<open>error\<close>; a call returns
  \<open>error + 'a\<close> with \<open>Inl\<close> for the exception. A Python \<^verbatim>\<open>str\<close> is the list of its
  code points; the contents of files are bytes.
\<close>

datatype error =
    AssertionError string
  | IndexError
  | KeyError
  | ValueError
  | OSError
  | ReadError
  | LibraryError string

type_synonym 'a result = "error + 'a"

subsection \<open>List indexing\<close>

text \<open>\<^verbatim>\<open>xs[i]\<close> on a Python list: a negative index counts from the end, an index
  outside \<open>-len .. len-1\<close> raises \<^verbatim>\<open>IndexError\<close>.\<close>

definition py_index :: "'a list \<Rightarrow> int \<Rightarrow> 'a result" where
  "py_index xs i =
     (if 0 \<le> i \<and> i < int (length xs) then Inr (xs ! nat i)
      else if i < 0 \<and> - int (length xs) \<le> i then Inr (xs ! nat (int (length xs) + i))
      else Inl IndexError)"

subsection \<open>Strings\<close>

text \<open>A \<^verbatim>\<open>str\<close> is the list of its Unicode code points, as integers; \<open>ascii\<close> gives the \<^verbatim>\<open>str\<close> of an
  ASCII literal.\<close>

type_synonym pystr = "int list"

definition ascii :: "string \<Rightarrow> pystr" where
  "ascii s = map of_char s"

text \<open>
  The Unicode character database of the interpreter is a parameter: \<open>decimal\<close> gives the
  value 0..9 of a code point of category Nd, \<open>white_space\<close> tells the white-space code
  points. The module consults it through \<^verbatim>\<open>\d\<close> and \<^verbatim>\<open>int()\<close> only, and only for
  code points outside ASCII; inside ASCII the decimal digits are \<^verbatim>\<open>0\<close>..\<^verbatim>\<open>9\<close>.
\<close>

record unicode_db =
  decimal :: "int \<Rightarrow> int option"
  white_space :: "int \<Rightarrow> bool"

definition is_decimal :: "unicode_db \<Rightarrow> int \<Rightarrow> bool" where
  "is_decimal U c = (if c < 128 then 48 \<le> c \<and> c \<le> 57 else decimal U c \<noteq> None)"

text \<open>\<^verbatim>\<open>s.replace(old, '')\<close>: every non-overlapping occurrence of \<open>old\<close>, found from
  the left, is removed; an empty \<open>old\<close> leaves the string as it is.\<close>

function py_remove :: "'a list \<Rightarrow> 'a list \<Rightarrow> 'a list" where
  "py_remove old s =
     (if old = [] \<or> s = [] then s
      else if take (length old) s = old then py_remove old (drop (length old) s)
      else hd s # py_remove old (tl s))"
  by pat_completeness auto
termination
  by (relation "measure (\<lambda>(old, s). length s)") (auto simp: neq_Nil_conv)

declare py_remove.simps [simp del]

text \<open>\<^verbatim>\<open>s.split(sep)\<close> for a one-character separator: one more piece than there are
  separators, empty pieces kept.\<close>

fun py_split :: "'a \<Rightarrow> 'a list \<Rightarrow> 'a list list" where
  "py_split sep [] = [[]]"
| "py_split sep (c # cs) =
     (if c = sep then [] # py_split sep cs
      else (case py_split sep cs of
              [] \<Rightarrow> [[c]]
            | w # ws \<Rightarrow> (c # w) # ws))"

text \<open>\<^verbatim>\<open>str(n)\<close> for an integer, as the f-string \<^verbatim>\<open>f'COMPILED_{index+1}.csv'\<close>
  formats it.\<close>

function str_nat :: "nat \<Rightarrow> pystr" where
  "str_nat n =
     (if n < 10 then [48 + int n] else str_nat (n div 10) @ [48 + int (n mod 10)])"
  by pat_completeness auto
termination
  by (relation "measure id") auto

declare str_nat.simps [simp del]

definition str_int :: "int \<Rightarrow> pystr" where
  "str_int i = (if i < 0 then of_char CHR ''-'' # str_nat (nat (- i)) else str_nat (nat i))"

text \<open>
  \<^verbatim>\<open>int(s)\<close> on a \<^verbatim>\<open>str\<close>. First every code point from 127 on is replaced: a white
  space by a blank, a decimal digit by the ASCII digit of its value, anything else by
  \<^verbatim>\<open>?\<close>. Then the ASCII text is read: blanks (code points 9 to 13 and 32) around the
  number are dropped, one sign is allowed, the digits may be grouped by single
  underscores; anything else raises \<^verbatim>\<open>ValueError\<close>.
\<close>

definition to_ascii :: "unicode_db \<Rightarrow> int \<Rightarrow> int" where
  "to_ascii U c =
     (if c < 127 then c
      else if white_space U c then 32
      else (case decimal U c of Some d \<Rightarrow> 48 + d | None \<Rightarrow> 63))"

definition is_blank :: "int \<Rightarrow> bool" where
  "is_blank c = ((9 \<le> c \<and> c \<le> 13) \<or> c = 32)"

definition is_digit :: "int \<Rightarrow> bool" where
  "is_digit c = (48 \<le> c \<and> c \<le> 57)"

definition py_strip :: "pystr \<Rightarrow> pystr" where
  "py_strip s = rev (dropWhile is_blank (rev (dropWhile is_blank s)))"

fun digits_ok :: "pystr \<Rightarrow> bool" where
  "digits_ok [] = False"
| "digits_ok [c] = is_digit c"
| "digits_ok (c # d # cs) =
     (if is_digit c then (if d = of_char CHR ''_'' then digits_ok cs else digits_ok (d # cs))
      else False)"

definition digits_value :: "pystr \<Rightarrow> int" where
  "digits_value s = foldl (\<lambda>acc c. 10 * acc + (c - 48)) 0 (filter is_digit s)"

definition py_int :: "unicode_db \<Rightarrow> pystr \<Rightarrow> int result" where
  "py_int U s =
     (let t = py_strip (map (to_ascii U) s);
          neg = (t \<noteq> [] \<and> hd t = of_char CHR ''-'');
          body = (if t \<noteq> [] \<and> (hd t = of_char CHR ''-'' \<or> hd t = of_char CHR ''+'')
                  then tl t else t)
      in if digits_ok body
         then Inr (if neg then - digits_value body else digits_value body)
         else Inl ValueError)"

subsection \<open>Regular expressions\<close>

text \<open>
  The two patterns of the module use character classes, \<^verbatim>\<open>\d\<close> (any decimal digit of
  Unicode), \<^verbatim>\<open>.\<close> (any character but a newline), sequencing, alternation, \<^verbatim>\<open>+\<close> and
  \<^verbatim>\<open>?\<close>. \<^verbatim>\<open>re.search\<close> is true when some substring of the subject is in the language
  of the pattern; it is computed with derivatives.
\<close>

datatype rexp =
    Nul
  | Eps
  | Cls "(int \<times> int) list"
  | Digit
  | Dot
  | Seq rexp rexp
  | Alt rexp rexp
  | Plus rexp
  | Opt rexp

fun nullable :: "rexp \<Rightarrow> bool" where
  "nullable Nul = False"
| "nullable Eps = True"
| "nullable (Cls rs) = False"
| "nullable Digit = False"
| "nullable Dot = False"
| "nullable (Seq r s) = (nullable r \<and> nullable s)"
| "nullable (Alt r s) = (nullable r \<or> nullable s)"
| "nullable (Plus r) = nullable r"
| "nullable (Opt r) = True"

definition in_class :: "(int \<times> int) list \<Rightarrow> int \<Rightarrow> bool" where
  "in_class rs c = list_ex (\<lambda>(lo, hi). lo \<le> c \<and> c \<le> hi) rs"

fun seq :: "rexp \<Rightarrow> rexp \<Rightarrow> rexp" where
  "seq Nul s = Nul"
| "seq Eps s = s"
| "seq r s = Seq r s"

fun alt :: "rexp \<Rightarrow> rexp \<Rightarrow> rexp" where
  "alt Nul s = s"
| "alt r Nul = r"
| "alt r s = Alt r s"

fun deriv :: "unicode_db \<Rightarrow> int \<Rightarrow> rexp \<Rightarrow> rexp" where
  "deriv U c Nul = Nul"
| "deriv U c Eps = Nul"
| "deriv U c (Cls rs) = (if in_class rs c then Eps else Nul)"
| "deriv U c Digit = (if is_decimal U c then Eps else Nul)"
| "deriv U c Dot = (if c = 10 then Nul else Eps)"
| "deriv U c (Seq r s) =
     (if nullable r then alt (seq (deriv U c r) s) (deriv U c s) else seq (deriv U c r) s)"
| "deriv U c (Alt r s) = alt (deriv U c r) (deriv U c s)"
| "deriv U c (Plus r) = seq (deriv U c r) (Opt (Plus r))"
| "deriv U c (Opt r) = deriv U c r"

fun match_prefix :: "unicode_db \<Rightarrow> rexp \<Rightarrow> pystr \<Rightarrow> bool" where
  "match_prefix U r [] = nullable r"
| "match_prefix U r (c # cs) = (nullable r \<or> match_prefix U (deriv U c r) cs)"

fun re_search :: "unicode_db \<Rightarrow> rexp \<Rightarrow> pystr \<Rightarrow> bool" where
  "re_search U r [] = nullable r"
| "re_search U r (c # cs) = (match_prefix U r (c # cs) \<or> re_search U r cs)"

definition lit :: "char \<Rightarrow> rexp" where
  "lit c = Cls [(of_char c, of_char c)]"

definition seqs :: "rexp list \<Rightarrow> rexp" where
  "seqs rs = foldr Seq rs Eps"

definition alpha :: rexp where
  "alpha = Cls [(of_char CHR ''a'', of_char CHR ''z''), (of_char CHR ''A'', of_char CHR ''Z'')]"

text \<open>\<^verbatim>\<open>r'[a-zA-Z]+_\d+(.tar.gz)?'\<close>\<close>

definition session_re :: rexp where
  "session_re =
     seqs [Plus alpha, lit CHR ''_'', Plus Digit,
           Opt (seqs [Dot, lit CHR ''t'', lit CHR ''a'', lit CHR ''r'',
                      Dot, lit CHR ''g'', lit CHR ''z''])]"

text \<open>\<^verbatim>\<open>r'[a-zA-Z]+_\d+.(clu|res|fet|spk).\d+'\<close>\<close>

definition group_re :: rexp where
  "group_re =
     seqs [Plus alpha, lit CHR ''_'', Plus Digit, Dot,
           Alt (seqs [lit CHR ''c'', lit CHR ''l'', lit CHR ''u''])
            (Alt (seqs [lit CHR ''r'', lit CHR ''e'', lit CHR ''s''])
              (Alt (seqs [lit CHR ''f'', lit CHR ''e'', lit CHR ''t''])
                   (seqs [lit CHR ''s'', lit CHR ''p'', lit CHR ''k'']))),
           Dot, Plus Digit]"

subsection \<open>\<^verbatim>\<open>np.unique\<close>\<close>

text \<open>\<^verbatim>\<open>np.unique\<close> sorts the array and keeps the first element of every run of equal
  neighbours.\<close>

definition np_unique :: "'a::linorder list \<Rightarrow> 'a list" where
  "np_unique xs = remdups_adj (sort xs)"

text \<open>
  A list of Python integers first becomes an array of one element type. An integer is
  an \<^verbatim>\<open>int64\<close> when it fits, else a \<^verbatim>\<open>uint64\<close> when it fits, else a Python object; a
  list with an object is an object array (exact integers), a list of only \<^verbatim>\<open>int64\<close> or
  only \<^verbatim>\<open>uint64\<close> keeps that type, and a list that mixes the two, like the empty list, is
  a \<^verbatim>\<open>float64\<close> array: each integer is rounded to the nearest number with 53 significant
  bits, ties to the even one. All these values are integers, so an array is the list of
  the integers it holds.
\<close>

datatype dtype = Int64 | UInt64 | Float64 | Object

definition discover :: "int \<Rightarrow> dtype" where
  "discover n =
     (if - (2 ^ 63) \<le> n \<and> n < 2 ^ 63 then Int64
      else if 2 ^ 63 \<le> n \<and> n < 2 ^ 64 then UInt64
      else Object)"

definition array_dtype :: "int list \<Rightarrow> dtype" where
  "array_dtype ns =
     (if ns = [] then Float64
      else if list_ex (\<lambda>n. discover n = Object) ns then Object
      else if list_all (\<lambda>n. discover n = Int64) ns then Int64
      else if list_all (\<lambda>n. discover n = UInt64) ns then UInt64
      else Float64)"

function excess_bits :: "int \<Rightarrow> nat" where
  "excess_bits n = (if n < 2 ^ 53 then 0 else Suc (excess_bits (n div 2)))"
  by pat_completeness auto
termination
  by (relation "measure nat") auto

declare excess_bits.simps [simp del]

definition round53 :: "int \<Rightarrow> int" where
  "round53 n =
     (let e = excess_bits n; q = n div 2 ^ e; r = n mod 2 ^ e
      in if 2 ^ e < 2 * r \<or> (2 * r = 2 ^ e \<and> odd q) then (q + 1) * 2 ^ e else q * 2 ^ e)"

definition float64_of_int :: "int \<Rightarrow> int" where
  "float64_of_int n = (if n < 0 then - round53 (- n) else round53 n)"

definition np_array :: "int list \<Rightarrow> int list" where
  "np_array ns = (if array_dtype ns = Float64 then map float64_of_int ns else ns)"

section \<open>The file system and the external libraries\<close>

text \<open>
  A directory tree. A path is the list of its components; \<open>path_of\<close> splits a path
  string at \<^verbatim>\<open>/\<close> and drops empty components and \<^verbatim>\<open>.\<close> (relative paths start at the
  root, \<^verbatim>\<open>..\<close> is not interpreted). \<^verbatim>\<open>os.path.join(d, name)\<close> with a name taken
  from a directory listing is the child \<open>name\<close> of \<open>d\<close>.
\<close>

datatype node = File string | Dir "(pystr \<times> node) list"

type_synonym path = "pystr list"

definition path_of :: "pystr \<Rightarrow> path" where
  "path_of s = filter (\<lambda>c. c \<noteq> [] \<and> c \<noteq> ascii ''.'') (py_split (of_char CHR ''/'') s)"

fun lookup :: "node \<Rightarrow> path \<Rightarrow> node option" where
  "lookup n [] = Some n"
| "lookup (File b) (c # cs) = None"
| "lookup (Dir es) (c # cs) =
     (case map_of es c of None \<Rightarrow> None | Some ch \<Rightarrow> lookup ch cs)"

text \<open>\<^verbatim>\<open>os.listdir\<close>: the entry names of a directory; an \<^verbatim>\<open>OSError\<close>
  (\<^verbatim>\<open>FileNotFoundError\<close>, \<^verbatim>\<open>NotADirectoryError\<close>) otherwise.\<close>

definition os_listdir :: "node \<Rightarrow> path \<Rightarrow> pystr list result" where
  "os_listdir fs p =
     (case lookup fs p of
        Some (Dir es) \<Rightarrow> Inr (map fst es)
      | _ \<Rightarrow> Inl OSError)"

definition os_path_isfile :: "node \<Rightarrow> path \<Rightarrow> bool" where
  "os_path_isfile fs p = (case lookup fs p of Some (File b) \<Rightarrow> True | _ \<Rightarrow> False)"

definition read_file :: "node \<Rightarrow> path \<Rightarrow> string result" where
  "read_file fs p = (case lookup fs p of Some (File b) \<Rightarrow> Inr b | _ \<Rightarrow> Inl OSError)"

text \<open>Opening a file for writing: the parent directory must exist, the file is created
  or replaced, a directory cannot be written.\<close>

fun write_file :: "node \<Rightarrow> path \<Rightarrow> string \<Rightarrow> node result" where
  "write_file (File old) [] b = Inr (File b)"
| "write_file (Dir es) [] b = Inl OSError"
| "write_file (File old) (c # cs) b = Inl OSError"
| "write_file (Dir es) (c # cs) b =
     (case map_of es c of
        None \<Rightarrow> (if cs = [] then Inr (Dir (es @ [(c, File b)])) else Inl OSError)
      | Some ch \<Rightarrow>
          (case write_file ch cs b of
             Inl e \<Rightarrow> Inl e
           | Inr ch' \<Rightarrow> Inr (Dir (AList.update c ch' es))))"

text \<open>
  A decoded archive is the list of its members, each a relative path with the bytes of a
  file or \<open>None\<close> for a directory. \<^verbatim>\<open>extractall\<close> installs the members in order below
  the destination, creating missing parent directories; it stops at the first member that
  cannot be installed and keeps what it has written so far.
\<close>

type_synonym member = "path \<times> string option"

fun fresh :: "path \<Rightarrow> string option \<Rightarrow> node" where
  "fresh [] None = Dir []"
| "fresh [] (Some b) = File b"
| "fresh (c # cs) m = Dir [(c, fresh cs m)]"

fun install :: "node \<Rightarrow> path \<Rightarrow> string option \<Rightarrow> node result" where
  "install (Dir es) [] None = Inr (Dir es)"
| "install (File old) [] None = Inl OSError"
| "install (Dir es) [] (Some b) = Inl OSError"
| "install (File old) [] (Some b) = Inr (File b)"
| "install (File old) (c # cs) m = Inl OSError"
| "install (Dir es) (c # cs) m =
     (case map_of es c of
        None \<Rightarrow> Inr (Dir (es @ [(c, fresh cs m)]))
      | Some ch \<Rightarrow>
          (case install ch cs m of
             Inl e \<Rightarrow> Inl e
           | Inr ch' \<Rightarrow> Inr (Dir (AList.update c ch' es))))"

fun extractall :: "node \<Rightarrow> path \<Rightarrow> member list \<Rightarrow> error option \<times> node" where
  "extractall fs dest [] = (None, fs)"
| "extractall fs dest ((p, m) # ms) =
     (case install fs (dest @ p) m of
        Inl e \<Rightarrow> (Some e, fs)
      | Inr fs' \<Rightarrow> extractall fs' dest ms)"

text \<open>
  The libraries the module calls are parameters: the decoder of a \<^verbatim>\<open>.tar.gz\<close> file
  (\<^verbatim>\<open>tarfile.open\<close>), \<^verbatim>\<open>mat73.loadmat\<close>, \<^verbatim>\<open>pd.read_csv(_, index_col=0)\<close>,
  \<^verbatim>\<open>DataFrame.to_csv\<close> and \<^verbatim>\<open>kkio.from_KK\<close>. The parser \<open>from_KK\<close> receives the
  file system, the directory, \<^verbatim>\<open>groups_to_get\<close>, \<^verbatim>\<open>also_get_waveforms\<close>,
  \<^verbatim>\<open>n_samples\<close> and \<^verbatim>\<open>n_channels\<close>; its other arguments are constants of the call
  (\<^verbatim>\<open>save_memoized=False\<close>: it writes nothing).
\<close>

record ('t, 'm) libs =
  tar_members :: "string \<Rightarrow> member list result"
  loadmat :: "string \<Rightarrow> 'm result"
  read_csv :: "string \<Rightarrow> 't result"
  to_csv :: "'t \<Rightarrow> string"
  from_KK :: "node \<Rightarrow> path \<Rightarrow> int \<Rightarrow> bool \<Rightarrow> int \<Rightarrow> int \<Rightarrow> 't result"

text \<open>The state: the directory tree and the trace of the archives handed to
  \<^verbatim>\<open>tarfile.open\<close>.\<close>

record world =
  root :: node
  opened :: "path list"

text \<open>\<^verbatim>\<open>with tarfile.open(archive, 'r:gz') as f: f.extractall(dest)\<close>\<close>

definition tarfile_extract ::
  "('t, 'm) libs \<Rightarrow> world \<Rightarrow> path \<Rightarrow> path \<Rightarrow> unit result \<times> world" where
  "tarfile_extract L w archive dest =
     (let w1 = w\<lparr>opened := opened w @ [archive]\<rparr> in
      case read_file (root w1) archive of
        Inl e \<Rightarrow> (Inl e, w1)
      | Inr bytes \<Rightarrow>
          (case tar_members L bytes of
             Inl e \<Rightarrow> (Inl e, w1)
           | Inr ms \<Rightarrow>
               (case extractall (root w1) dest ms of
                  (Some e, fs) \<Rightarrow> (Inl e, w1\<lparr>root := fs\<rparr>)
                | (None, fs) \<Rightarrow> (Inr (), w1\<lparr>root := fs\<rparr>))))"

section \<open>The two loaders\<close>

record options =
  eeg :: bool
  spk :: bool
  samples :: int
  channels :: int
  use_disk :: bool

record tarloader = options +
  tar_directory :: pystr
  export_directory :: pystr
  ext :: pystr
  files :: "pystr list"

record 'm dataloader = options +
  directory :: path
  novel :: 'm
  num_files :: int

subsection \<open>\<^verbatim>\<open>Dataloader\<close>\<close>

text \<open>\<^verbatim>\<open>[int(f.split('.')[2]) for f in files if re.search(..., f)]\<close>, on the files that
  passed the filter: the first file whose third piece is missing or is not an integer
  raises.\<close>

fun group_numbers :: "unicode_db \<Rightarrow> pystr list \<Rightarrow> int list result" where
  "group_numbers U [] = Inr []"
| "group_numbers U (f # fs) =
     (case py_index (py_split (of_char CHR ''.'') f) 2 of
        Inl e \<Rightarrow> Inl e
      | Inr tok \<Rightarrow>
          (case py_int U tok of
             Inl e \<Rightarrow> Inl e
           | Inr n \<Rightarrow>
               (case group_numbers U fs of
                  Inl e \<Rightarrow> Inl e
                | Inr ns \<Rightarrow> Inr (n # ns))))"

definition Dataloader_init ::
  "unicode_db \<Rightarrow> node \<Rightarrow> path \<Rightarrow> 'm \<Rightarrow> bool \<Rightarrow> bool \<Rightarrow> int \<Rightarrow> int \<Rightarrow> bool
     \<Rightarrow> 'm dataloader result" where
  "Dataloader_init U fs dir nov eeg0 spk0 samples0 channels0 use_disk0 =
     (case os_listdir fs dir of
        Inl e \<Rightarrow> Inl e
      | Inr listing \<Rightarrow>
          (case group_numbers U (filter (re_search U group_re) listing) of
             Inl e \<Rightarrow> Inl e
           | Inr nums \<Rightarrow>
               Inr \<lparr>eeg = eeg0, spk = spk0, samples = samples0, channels = channels0,
                    use_disk = use_disk0, directory = dir, novel = nov,
                    num_files = int (length (np_unique (np_array nums)))\<rparr>))"

definition compiled_name :: "int \<Rightarrow> pystr" where
  "compiled_name index = ascii ''COMPILED_'' @ str_int (index + 1) @ ascii ''.csv''"

definition Dataloader_getitem ::
  "('t, 'm) libs \<Rightarrow> 'm dataloader \<Rightarrow> world \<Rightarrow> int \<Rightarrow> ('m \<times> 't) result \<times> world" where
  "Dataloader_getitem L dl w index =
     (let fname = directory dl @ [compiled_name index] in
      if use_disk dl \<and> os_path_isfile (root w) fname then
        (case read_file (root w) fname of
           Inl e \<Rightarrow> (Inl e, w)
         | Inr bytes \<Rightarrow>
             (case read_csv L bytes of
                Inl e \<Rightarrow> (Inl e, w)
              | Inr data \<Rightarrow> (Inr (novel dl, data), w)))
      else
        (case from_KK L (root w) (directory dl) (index + 1) (spk dl) (samples dl) (channels dl) of
           Inl e \<Rightarrow> (Inl e, w)
         | Inr data \<Rightarrow>
             if use_disk dl then
               (case write_file (root w) fname (to_csv L data) of
                  Inl e \<Rightarrow> (Inl e, w)
                | Inr fs \<Rightarrow> (Inr (novel dl, data), w\<lparr>root := fs\<rparr>))
             else (Inr (novel dl, data), w)))"

definition Dataloader_len :: "'m dataloader \<Rightarrow> int" where
  "Dataloader_len dl = num_files dl"

subsection \<open>\<^verbatim>\<open>Tarloader\<close>\<close>

text \<open>A directory argument is \<^verbatim>\<open>None\<close> or a string; \<^verbatim>\<open>None\<close> and the empty string are
  false in a condition.\<close>

definition truthy :: "pystr option \<Rightarrow> bool" where
  "truthy d = (case d of None \<Rightarrow> False | Some s \<Rightarrow> s \<noteq> [])"

definition dir_string :: "pystr option \<Rightarrow> pystr" where
  "dir_string d = (case d of None \<Rightarrow> [] | Some s \<Rightarrow> s)"

definition canonical :: "pystr \<Rightarrow> pystr \<Rightarrow> pystr" where
  "canonical ext0 f = py_remove (ascii ''_spk'') (py_remove (ascii ''_eeg'') (py_remove ext0 f))"

definition Tarloader_init ::
  "unicode_db \<Rightarrow> node \<Rightarrow> pystr option \<Rightarrow> pystr option \<Rightarrow> pystr \<Rightarrow> bool \<Rightarrow> bool \<Rightarrow> int
     \<Rightarrow> int \<Rightarrow> bool \<Rightarrow> tarloader result" where
  "Tarloader_init U fs tar_dir export_dir ext0 eeg0 spk0 samples0 channels0 use_disk0 =
     (if \<not> (truthy tar_dir \<or> truthy export_dir) then
        Inl (AssertionError ''One of `tar_directory` or `export_directory` must be provided.'')
      else if eeg0 then Inl (AssertionError ''eeg cannot be exported at the moment.'')
      else
        let tar_dir1 = (if \<not> truthy tar_dir then export_dir else tar_dir);
            export_dir1 = (if \<not> truthy export_dir then tar_dir1 else export_dir)
        in case os_listdir fs (path_of (dir_string tar_dir1)) of
             Inl e \<Rightarrow> Inl e
           | Inr l1 \<Rightarrow>
               (case os_listdir fs (path_of (dir_string export_dir1)) of
                  Inl e \<Rightarrow> Inl e
                | Inr l2 \<Rightarrow>
                    Inr \<lparr>eeg = eeg0, spk = spk0, samples = samples0, channels = channels0,
                         use_disk = use_disk0,
                         tar_directory = dir_string tar_dir1,
                         export_directory = dir_string export_dir1,
                         ext = ext0,
                         files = np_unique (map (canonical ext0)
                                   (filter (re_search U session_re) (l1 @ l2)))\<rparr>))"

definition archive_path :: "tarloader \<Rightarrow> pystr \<Rightarrow> pystr \<Rightarrow> path" where
  "archive_path self name tag = path_of (tar_directory self) @ [name @ tag @ ext self]"

definition Tarloader_extract ::
  "('t, 'm) libs \<Rightarrow> tarloader \<Rightarrow> world \<Rightarrow> int \<Rightarrow> unit result \<times> world" where
  "Tarloader_extract L self w index =
     (case py_index (files self) index of
        Inl e \<Rightarrow> (Inl e, w)
      | Inr name \<Rightarrow>
          (case os_listdir (root w) (path_of (export_directory self)) of
             Inl e \<Rightarrow> (Inl e, w)
           | Inr listing \<Rightarrow>
               if name \<in> set listing then (Inr (), w)
               else
                 (case tarfile_extract L w (archive_path self name [])
                         (path_of (export_directory self)) of
                    (Inl e, w1) \<Rightarrow> (Inl e, w1)
                  | (Inr u, w1) \<Rightarrow>
                      (case (if eeg self
                             then tarfile_extract L w1 (archive_path self name (ascii ''_eeg''))
                                    (path_of (export_directory self))
                             else (Inr (), w1)) of
                         (Inl e, w2) \<Rightarrow> (Inl e, w2)
                       | (Inr u, w2) \<Rightarrow>
                           if spk self
                           then tarfile_extract L w2 (archive_path self name (ascii ''_spk''))
                                  (path_of (export_directory self))
                           else (Inr (), w2)))))"

datatype key = Pos int | Name pystr

text \<open>\<^verbatim>\<open>np.argwhere(np.array(self.files) == index)\<close> and its first entry.\<close>

definition position_of :: "pystr list \<Rightarrow> pystr \<Rightarrow> int result" where
  "position_of names n =
     (case filter (\<lambda>i. names ! i = n) [0..<length names] of
        [] \<Rightarrow> Inl IndexError
      | i # rest \<Rightarrow> Inr (int i))"

definition Tarloader_getitem ::
  "unicode_db \<Rightarrow> ('t, 'm) libs \<Rightarrow> tarloader \<Rightarrow> world \<Rightarrow> key
     \<Rightarrow> 'm dataloader result \<times> world" where
  "Tarloader_getitem U L self w k =
     (case (case k of Pos i \<Rightarrow> Inr i | Name n \<Rightarrow> position_of (files self) n) of
        Inl e \<Rightarrow> (Inl e, w)
      | Inr index \<Rightarrow>
          (case Tarloader_extract L self w index of
             (Inl e, w1) \<Rightarrow> (Inl e, w1)
           | (Inr u, w1) \<Rightarrow>
               (case py_index (files self) index of
                  Inl e \<Rightarrow> (Inl e, w1)
                | Inr name \<Rightarrow>
                    (case read_file (root w1)
                            (path_of (export_directory self) @ [name, name @ ascii ''_sessInfo.mat'']) of
                       Inl e \<Rightarrow> (Inl e, w1)
                     | Inr bytes \<Rightarrow>
                         (case loadmat L bytes of
                            Inl e \<Rightarrow> (Inl e, w1)
                          | Inr nov \<Rightarrow>
                              (Dataloader_init U (root w1) (path_of (export_directory self) @ [name])
                                 nov (eeg self) (spk self) (samples self) (channels self) (use_disk self),
                               w1))))))"


section \<open>Example sessions\<close>

text \<open>
  Concrete libraries and directory trees on which the statements below are evaluated.
  The example decoder knows four archives by their bytes; metadata and tables are the
  bytes of their files; the example parser returns the bytes of the \<^verbatim>\<open>.res\<close> file of the
  requested group.
\<close>

text \<open>
  The character database of Unicode 14.0 outside ASCII: the decimal digits come in runs
  of ten, given by the code point of their zero; the white-space code points are listed.
\<close>

definition nd_zeros :: "int list" where
  "nd_zeros =
     [1632, 1776, 1984, 2406, 2534, 2662, 2790, 2918, 3046, 3174, 3302, 3430, 3558,
      3664, 3792, 3872, 4160, 4240, 6112, 6160, 6470, 6608, 6784, 6800, 6992, 7088,
      7232, 7248, 42528, 43216, 43264, 43472, 43504, 43600, 44016, 65296, 66720,
      68912, 69734, 69872, 69942, 70096, 70384, 70736, 70864, 71248, 71360, 71472,
      71904, 72016, 72784, 73040, 73120, 92768, 92864, 93008, 120782, 120792, 120802,
      120812, 120822, 123200, 123632, 125264, 130032]"

definition unicode_spaces :: "int list" where
  "unicode_spaces =
     [133, 160, 5760, 8192, 8193, 8194, 8195, 8196, 8197, 8198, 8199, 8200, 8201,
      8202, 8232, 8233, 8239, 8287, 12288]"

definition unicode_14 :: unicode_db where
  "unicode_14 =
     \<lparr>decimal = (\<lambda>c. case filter (\<lambda>z. z \<le> c \<and> c < z + 10) nd_zeros of
                          [] \<Rightarrow> None
                        | z # zs \<Rightarrow> Some (c - z)),
      white_space = (\<lambda>c. c \<in> set unicode_spaces)\<rparr>"

definition ex_tar_members :: "string \<Rightarrow> member list result" where
  "ex_tar_members bytes =
     (if bytes = ''A'' then
        Inr [([ascii ''ratA_3''], None),
             ([ascii ''ratA_3'', ascii ''ratA_3_sessInfo.mat''], Some ''meta''),
             ([ascii ''ratA_3'', ascii ''ratA_3.clu.1''], Some ''c1''),
             ([ascii ''ratA_3'', ascii ''ratA_3.res.1''], Some ''r1''),
             ([ascii ''ratA_3'', ascii ''ratA_3.res.2''], Some ''r2'')]
      else if bytes = ''S'' then
        Inr [([ascii ''ratA_3'', ascii ''ratA_3.spk.1''], Some ''s1'')]
      else if bytes = ''T'' then
        Inr [([ascii ''ratB_7.clu.1''], Some ''c1'')]
      else if bytes = ''U'' then
        Inr [([ascii ''ratB_7.spk.1''], Some ''s1'')]
      else Inl ReadError)"

definition ex_from_KK :: "node \<Rightarrow> path \<Rightarrow> int \<Rightarrow> bool \<Rightarrow> int \<Rightarrow> int \<Rightarrow> string result" where
  "ex_from_KK fs dir g waveforms n_samples n_channels =
     read_file fs (dir @ [ascii ''ratA_3.res.'' @ str_int g])"

definition ex_libs :: "(string, string) libs" where
  "ex_libs = \<lparr>tar_members = ex_tar_members, loadmat = Inr, read_csv = Inr,
              to_csv = (\<lambda>t. t), from_KK = ex_from_KK\<rparr>"

definition ex_fs :: node where
  "ex_fs = Dir [(ascii ''tars'', Dir [(ascii ''ratA_3.tar.gz'', File ''A''),
                                (ascii ''ratA_3_spk.tar.gz'', File ''S''),
                                (ascii ''notes.txt'', File ''n'')]),
                (ascii ''out'', Dir [])]"

definition ex_world :: world where
  "ex_world = \<lparr>root = ex_fs, opened = []\<rparr>"

definition ex_tarloader :: tarloader where
  "ex_tarloader = \<lparr>eeg = False, spk = True, samples = 32, channels = - 1, use_disk = True,
                    tar_directory = ascii ''tars'', export_directory = ascii ''out'', ext = ascii ''.tar.gz'',
                    files = [ascii ''ratA_3'']\<rparr>"

text \<open>The session directory after both archives of \<^verbatim>\<open>ratA_3\<close> have been extracted.\<close>

definition ex_session :: node where
  "ex_session = Dir [(ascii ''ratA_3_sessInfo.mat'', File ''meta''),
                     (ascii ''ratA_3.clu.1'', File ''c1''),
                     (ascii ''ratA_3.res.1'', File ''r1''),
                     (ascii ''ratA_3.res.2'', File ''r2''),
                     (ascii ''ratA_3.spk.1'', File ''s1'')]"

definition ex_fs_extracted :: node where
  "ex_fs_extracted = Dir [(ascii ''tars'', Dir [(ascii ''ratA_3.tar.gz'', File ''A''),
                                          (ascii ''ratA_3_spk.tar.gz'', File ''S''),
                                          (ascii ''notes.txt'', File ''n'')]),
                          (ascii ''out'', Dir [(ascii ''ratA_3'', ex_session)])]"

definition ex_world_extracted :: world where
  "ex_world_extracted =
     \<lparr>root = ex_fs_extracted,
      opened = [[ascii ''tars'', ascii ''ratA_3.tar.gz''], [ascii ''tars'', ascii ''ratA_3_spk.tar.gz'']]\<rparr>"

text \<open>The same tree once the table of group 1 has been persisted.\<close>

definition ex_world_memo :: world where
  "ex_world_memo =
     \<lparr>root = Dir [(ascii ''tars'', Dir [(ascii ''ratA_3.tar.gz'', File ''A''),
                                   (ascii ''ratA_3_spk.tar.gz'', File ''S''),
                                   (ascii ''notes.txt'', File ''n'')]),
                   (ascii ''out'', Dir [(ascii ''ratA_3'',
                       Dir [(ascii ''ratA_3_sessInfo.mat'', File ''meta''),
                            (ascii ''ratA_3.clu.1'', File ''c1''),
                            (ascii ''ratA_3.res.1'', File ''r1''),
                            (ascii ''ratA_3.res.2'', File ''r2''),
                            (ascii ''ratA_3.spk.1'', File ''s1''),
                            (ascii ''COMPILED_1.csv'', File ''r1'')])])],
      opened = [[ascii ''tars'', ascii ''ratA_3.tar.gz''], [ascii ''tars'', ascii ''ratA_3_spk.tar.gz'']]\<rparr>"

definition ex_dataloader :: "string dataloader" where
  "ex_dataloader = \<lparr>eeg = False, spk = True, samples = 32, channels = - 1, use_disk = True,
                     directory = [ascii ''out'', ascii ''ratA_3''], novel = ''meta'', num_files = 2\<rparr>"




text \<open>A session directory whose group numbers are 1 and 3.\<close>

definition ex_fs_gap :: node where
  "ex_fs_gap = Dir [(ascii ''s'', Dir [(ascii ''ratA_3.clu.1'', File ''c1''),
                                 (ascii ''ratA_3.res.1'', File ''r1''),
                                 (ascii ''ratA_3.clu.3'', File ''c3''),
                                 (ascii ''ratA_3.res.3'', File ''r3'')])]"

definition ex_world_gap :: world where
  "ex_world_gap = \<lparr>root = ex_fs_gap, opened = []\<rparr>"

definition ex_dataloader_gap :: "string dataloader" where
  "ex_dataloader_gap = \<lparr>eeg = False, spk = True, samples = 32, channels = - 1, use_disk = False,
                         directory = [ascii ''s''], novel = ''meta'', num_files = 2\<rparr>"

section \<open>Properties of the library functions\<close>

text \<open>Digits and white space outside ASCII, as \<^verbatim>\<open>\d\<close> and \<^verbatim>\<open>int()\<close> treat them: the
  Arabic-Indic digit three (U+0663), a no-break space (U+00A0), a next-line character
  (U+0085), the ASCII file separator (U+001C), and superscript two (U+00B2), which is no
  decimal digit.\<close>

lemma unicode_examples:
  "py_int unicode_14 [0x663] = Inr 3"
  "py_int unicode_14 [0xA0, 49, 95, 0x663, 0x85] = Inr 13"
  "py_int unicode_14 [0x1C, 49] = Inl ValueError"
  "py_int unicode_14 [0xB2] = Inl ValueError"
  "re_search unicode_14 session_re (ascii ''r_'' @ [0x663])"
  "\<not> re_search unicode_14 session_re (ascii ''r_'' @ [0xB2])"
  by code_simp+


lemma set_np_unique: "set (np_unique xs) = set xs"
  by (simp add: np_unique_def)

lemma distinct_remdups_adj_sorted: "sorted xs \<Longrightarrow> distinct (remdups_adj xs)"
proof (induction xs rule: remdups_adj.induct)
  case (3 x y xs)
  then show ?case by (cases "x = y") auto
qed simp_all

lemma distinct_np_unique: "distinct (np_unique xs)"
  by (simp add: np_unique_def distinct_remdups_adj_sorted)

lemma length_np_unique: "length (np_unique xs) = card (set xs)"
  using distinct_card [OF distinct_np_unique, of xs] by (simp add: set_np_unique)

lemma filter_index_distinct:
  assumes "distinct names" and "i < length names"
  shows "filter (\<lambda>j. names ! j = names ! i) [0..<length names] = [i]"
proof -
  have "\<And>j. j < length names \<Longrightarrow> (names ! j = names ! i) = (j = i)"
    using assms by (auto simp: nth_eq_iff_index_eq)
  then have "filter (\<lambda>j. names ! j = names ! i) [0..<length names]
             = filter (\<lambda>j. j = i) [0..<length names]"
    by (intro filter_cong) auto
  also have "\<dots> = [i]"
    using assms(2) by (induction names rule: rev_induct) (auto simp: less_Suc_eq)
  finally show ?thesis .
qed

lemma position_of_distinct:
  "distinct names \<Longrightarrow> i < length names \<Longrightarrow> position_of names (names ! i) = Inr (int i)"
  by (simp add: position_of_def filter_index_distinct)





lemma write_file_lookup:
  "write_file fs p b = Inr fs' \<Longrightarrow> lookup fs' p = Some (File b)"
proof (induction fs p b arbitrary: fs' rule: write_file.induct)
  case (4 es c cs b)
  show ?case
  proof (cases "map_of es c")
    case None
    with 4(2) show ?thesis by (auto simp: map_add_def split: if_splits)
  next
    case (Some ch)
    with 4 show ?thesis by (auto simp: update_conv' split: sum.splits)
  qed
qed auto


lemma isfile_read_file:
  "os_path_isfile fs p \<longleftrightarrow> (\<exists>b. read_file fs p = Inr b)"
  by (auto simp: os_path_isfile_def read_file_def split: option.splits node.splits)

lemma write_file_read:
  "write_file fs p b = Inr fs' \<Longrightarrow> read_file fs' p = Inr b"
  by (simp add: read_file_def write_file_lookup)

lemma tarfile_extract_opened:
  "opened (snd (tarfile_extract L w a d)) = opened w @ [a]"
  by (simp add: tarfile_extract_def Let_def split: sum.splits prod.splits option.splits)

lemma Tarloader_extract_skip:
  assumes "py_index (files self) i = Inr name"
    and "os_listdir (root w) (path_of (export_directory self)) = Inr listing"
    and "name \<in> set listing"
  shows "Tarloader_extract L self w i = (Inr (), w)"
  using assms by (simp add: Tarloader_extract_def)

lemma Tarloader_extract_opens:
  assumes "py_index (files self) i = Inr name"
    and "os_listdir (root w) (path_of (export_directory self)) = Inr listing"
    and "name \<notin> set listing"
  shows "\<exists>rest. opened (snd (Tarloader_extract L self w i))
                  = opened w @ archive_path self name [] # rest"
proof -
  let ?dest = "path_of (export_directory self)"
  obtain r1 w1 where s1: "tarfile_extract L w (archive_path self name []) ?dest = (r1, w1)"
    by (cases "tarfile_extract L w (archive_path self name []) ?dest")
  have o1: "opened w1 = opened w @ [archive_path self name []]"
    using tarfile_extract_opened [of L w "archive_path self name []" ?dest] s1 by simp
  obtain r2 w2 where s2: "(if eeg self
                             then tarfile_extract L w1 (archive_path self name (ascii ''_eeg'')) ?dest
                             else (Inr (), w1)) = (r2, w2)"
    by (cases "(if eeg self
                             then tarfile_extract L w1 (archive_path self name (ascii ''_eeg'')) ?dest
                             else (Inr (), w1))")
  have o2: "\<exists>rest. opened w2 = opened w1 @ rest"
    using tarfile_extract_opened [of L w1 "archive_path self name (ascii ''_eeg'')" ?dest] s2
    by (auto split: if_splits)
  obtain r3 w3 where s3: "tarfile_extract L w2 (archive_path self name (ascii ''_spk'')) ?dest = (r3, w3)"
    by (cases "tarfile_extract L w2 (archive_path self name (ascii ''_spk'')) ?dest")
  have o3: "opened w3 = opened w2 @ [archive_path self name (ascii ''_spk'')]"
    using tarfile_extract_opened [of L w2 "archive_path self name (ascii ''_spk'')" ?dest] s3 by simp
  show ?thesis
    using assms s1 s2 s3 o1 o2 o3
    by (auto simp: Tarloader_extract_def split: sum.splits)
qed

lemma Tarloader_init_Inr:
  assumes "Tarloader_init U fs td ed ex0 e s n c u = Inr self"
  shows "\<exists>l1 l2. os_listdir fs (path_of (tar_directory self)) = Inr l1
           \<and> os_listdir fs (path_of (export_directory self)) = Inr l2
           \<and> files self = np_unique (map (canonical ex0) (filter (re_search U session_re) (l1 @ l2)))"
proof -
  let ?t = "dir_string (if \<not> truthy td then ed else td)"
  let ?e = "dir_string (if \<not> truthy ed then (if \<not> truthy td then ed else td) else ed)"
  from assms obtain l1 where l1: "os_listdir fs (path_of ?t) = Inr l1"
    by (cases "os_listdir fs (path_of ?t)")
       (simp_all add: Tarloader_init_def Let_def split: if_splits)
  from assms l1 obtain l2 where l2: "os_listdir fs (path_of ?e) = Inr l2"
    by (cases "os_listdir fs (path_of ?e)")
       (simp_all add: Tarloader_init_def Let_def split: if_splits)
  from assms l1 l2 have
    self: "self = \<lparr>eeg = e, spk = s, samples = n, channels = c, use_disk = u,
                   tar_directory = ?t, export_directory = ?e, ext = ex0,
                   files = np_unique (map (canonical ex0)
                             (filter (re_search U session_re) (l1 @ l2)))\<rparr>"
    by (simp add: Tarloader_init_def Let_def split: if_splits)
  have "tar_directory self = ?t" "export_directory self = ?e"
       "files self = np_unique (map (canonical ex0) (filter (re_search U session_re) (l1 @ l2)))"
    by (simp_all add: self)
  with l1 l2 show ?thesis by simp
qed

section \<open>Sessions: enumeration and access\<close>


subsection \<open>Evaluation on the example tree\<close>

lemma ex_init:
  "Tarloader_init unicode_14 ex_fs (Some (ascii ''tars'')) (Some (ascii ''out'')) (ascii ''.tar.gz'')
       False True 32 (- 1) True
     = Inr ex_tarloader"
  by code_simp





text \<open>
  Claim C5. For a constructed \<^verbatim>\<open>Tarloader\<close> and every position \<open>i\<close> of its name list,
  access by the name at \<open>i\<close> and access by the integer \<open>i\<close> give the same result and
  the same final state, whatever the state they start from.
\<close>

theorem name_access_eq_position_access:
  assumes "Tarloader_init U fs td ed ex0 e s n c u = Inr self"
    and "i < length (files self)"
  shows "Tarloader_getitem U L self w (Name (files self ! i))
           = Tarloader_getitem U L self w (Pos (int i))"
proof -
  from Tarloader_init_Inr [OF assms(1)] have "distinct (files self)"
    by (auto simp: distinct_np_unique)
  then have "position_of (files self) (files self ! i) = Inr (int i)"
    using assms(2) by (rule position_of_distinct)
  then show ?thesis by (simp add: Tarloader_getitem_def)
qed

lemma ex_getitem:
  "Tarloader_getitem unicode_14 ex_libs ex_tarloader ex_world (Pos 0) = (Inr ex_dataloader, ex_world_extracted)"
  by code_simp

theorem name_access_eq_position_access_witness:
  "Tarloader_init unicode_14 ex_fs (Some (ascii ''tars'')) (Some (ascii ''out'')) (ascii ''.tar.gz'')
       False True 32 (- 1) True
     = Inr ex_tarloader
   \<and> (0::nat) < length (files ex_tarloader)
   \<and> Tarloader_getitem unicode_14 ex_libs ex_tarloader ex_world (Name (ascii ''ratA_3''))
       = (Inr ex_dataloader, ex_world_extracted)"
proof -
  have l: "(0::nat) < length (files ex_tarloader)" and n: "files ex_tarloader ! 0 = ascii ''ratA_3''"
    by (simp_all add: ex_tarloader_def)
  from name_access_eq_position_access [OF ex_init l, of ex_libs ex_world]
  have "Tarloader_getitem unicode_14 ex_libs ex_tarloader ex_world (Name (ascii ''ratA_3''))
       = (Inr ex_dataloader, ex_world_extracted)"
    by (simp only: n ex_getitem of_nat_0)
  with ex_init l show ?thesis by blast
qed

section \<open>Sessions: extraction\<close>

text \<open>
  Claim C10. \<^verbatim>\<open>extract\<close> returns at once, leaving the state (and so the trace of opened
  archives) as it was, exactly when the index names a session and that name is among the
  entries of the extraction-target listing; whether the entry is a file, a directory or a
  complete extraction is not looked at. When the name is not listed, the primary archive
  is the next one handed to \<^verbatim>\<open>tarfile.open\<close>.
\<close>

theorem extract_skipped_iff_listed:
  "(Tarloader_extract L self w i = (Inr (), w)
      \<longleftrightarrow> (\<exists>name listing. py_index (files self) i = Inr name
             \<and> os_listdir (root w) (path_of (export_directory self)) = Inr listing
             \<and> name \<in> set listing))
   \<and> (\<forall>name listing. py_index (files self) i = Inr name
          \<and> os_listdir (root w) (path_of (export_directory self)) = Inr listing
          \<and> name \<notin> set listing
        \<longrightarrow> (\<exists>rest. opened (snd (Tarloader_extract L self w i))
                       = opened w @ archive_path self name [] # rest))"
proof (intro conjI iffI allI impI)
  assume skipped: "Tarloader_extract L self w i = (Inr (), w)"
  show "\<exists>name listing. py_index (files self) i = Inr name
             \<and> os_listdir (root w) (path_of (export_directory self)) = Inr listing
             \<and> name \<in> set listing"
  proof (cases "py_index (files self) i")
    case (Inl e)
    with skipped show ?thesis by (simp add: Tarloader_extract_def)
  next
    case (Inr name)
    show ?thesis
    proof (cases "os_listdir (root w) (path_of (export_directory self))")
      case (Inl e)
      with skipped Inr show ?thesis by (simp add: Tarloader_extract_def)
    next
      case listed: (Inr listing)
      have "name \<in> set listing"
      proof (rule ccontr)
        assume "name \<notin> set listing"
        from Tarloader_extract_opens [OF Inr listed this, of L] skipped
        show False by simp
      qed
      with Inr listed show ?thesis by blast
    qed
  qed
next
  assume "\<exists>name listing. py_index (files self) i = Inr name
             \<and> os_listdir (root w) (path_of (export_directory self)) = Inr listing
             \<and> name \<in> set listing"
  then obtain name listing where "py_index (files self) i = Inr name"
    "os_listdir (root w) (path_of (export_directory self)) = Inr listing" "name \<in> set listing"
    by blast
  then show "Tarloader_extract L self w i = (Inr (), w)"
    by (rule Tarloader_extract_skip)
next
  fix name listing
  assume a: "py_index (files self) i = Inr name
          \<and> os_listdir (root w) (path_of (export_directory self)) = Inr listing
          \<and> name \<notin> set listing"
  show "\<exists>rest. opened (snd (Tarloader_extract L self w i))
                       = opened w @ archive_path self name [] # rest"
    using Tarloader_extract_opens [of self i name w listing L] a by blast
qed




lemma ex_index0: "py_index (files ex_tarloader) 0 = Inr (ascii ''ratA_3'')"
  by (simp add: py_index_def ex_tarloader_def)

lemma ex_listing_extracted:
  "os_listdir (root ex_world_extracted) (path_of (export_directory ex_tarloader)) = Inr [ascii ''ratA_3'']"
  by code_simp

lemma ex_listing_fresh:
  "os_listdir (root ex_world) (path_of (export_directory ex_tarloader)) = Inr []"
  by code_simp

theorem extract_skipped_iff_listed_witness:
  "Tarloader_extract ex_libs ex_tarloader ex_world_extracted 0 = (Inr (), ex_world_extracted)
   \<and> (\<exists>rest. opened (snd (Tarloader_extract ex_libs ex_tarloader ex_world 0))
                 = opened ex_world @ archive_path ex_tarloader (ascii ''ratA_3'') [] # rest)"
proof -
  have "\<exists>name listing. py_index (files ex_tarloader) 0 = Inr name
          \<and> os_listdir (root ex_world_extracted) (path_of (export_directory ex_tarloader))
              = Inr listing
          \<and> name \<in> set listing"
    using ex_index0 ex_listing_extracted by simp
  with extract_skipped_iff_listed [of ex_libs ex_tarloader ex_world_extracted 0]
  have a: "Tarloader_extract ex_libs ex_tarloader ex_world_extracted 0
             = (Inr (), ex_world_extracted)"
    by blast
  have "py_index (files ex_tarloader) 0 = Inr (ascii ''ratA_3'')
          \<and> os_listdir (root ex_world) (path_of (export_directory ex_tarloader)) = Inr []
          \<and> ascii ''ratA_3'' \<notin> set []"
    using ex_index0 ex_listing_fresh by simp
  with extract_skipped_iff_listed [of ex_libs ex_tarloader ex_world 0]
  have b: "\<exists>rest. opened (snd (Tarloader_extract ex_libs ex_tarloader ex_world 0))
                 = opened ex_world @ archive_path ex_tarloader (ascii ''ratA_3'') [] # rest"
    by blast
  from a b show ?thesis by blast
qed



section \<open>Groups: access\<close>

lemma Dataloader_getitem_memo:
  assumes "use_disk dl"
    and "read_file (root w) (directory dl @ [compiled_name i]) = Inr bytes"
  shows "Dataloader_getitem L dl w i = (map_sum id (Pair (novel dl)) (read_csv L bytes), w)"
proof -
  from assms(2) have "os_path_isfile (root w) (directory dl @ [compiled_name i])"
    by (auto simp: isfile_read_file)
  with assms show ?thesis
    by (simp add: Dataloader_getitem_def split: sum.splits)
qed

lemma Dataloader_getitem_raw:
  assumes "\<not> use_disk dl"
  shows "Dataloader_getitem L dl w i
           = (map_sum id (Pair (novel dl))
                (from_KK L (root w) (directory dl) (i + 1) (spk dl) (samples dl) (channels dl)), w)"
  using assms by (simp add: Dataloader_getitem_def split: sum.splits)

lemma Dataloader_getitem_persist:
  assumes "use_disk dl"
    and "\<not> os_path_isfile (root w) (directory dl @ [compiled_name i])"
    and "Dataloader_getitem L dl w i = (Inr (m, d), w1)"
  shows "from_KK L (root w) (directory dl) (i + 1) (spk dl) (samples dl) (channels dl) = Inr d"
    and "m = novel dl"
    and "read_file (root w1) (directory dl @ [compiled_name i]) = Inr (to_csv L d)"
proof -
  let ?parse = "from_KK L (root w) (directory dl) (i + 1) (spk dl) (samples dl) (channels dl)"
  from assms obtain d' where d': "?parse = Inr d'"
    by (cases ?parse) (simp_all add: Dataloader_getitem_def)
  let ?stored = "write_file (root w) (directory dl @ [compiled_name i]) (to_csv L d')"
  from assms d' obtain fs where fs: "?stored = Inr fs"
    by (cases ?stored) (simp_all add: Dataloader_getitem_def)
  from assms d' fs have eqs: "d' = d" "m = novel dl" "w1 = w\<lparr>root := fs\<rparr>"
    by (auto simp: Dataloader_getitem_def)
  from d' eqs show "?parse = Inr d" by simp
  from eqs show "m = novel dl" by simp
  from write_file_read [OF fs] eqs
  show "read_file (root w1) (directory dl @ [compiled_name i]) = Inr (to_csv L d)" by simp
qed

text \<open>
  Claim C1, amended. The key of \<^verbatim>\<open>Dataloader.__getitem__\<close> is a position counted from
  0: for every key \<open>i\<close> the raw parse is asked for group \<open>i + 1\<close> and the memoized file
  is \<^verbatim>\<open>COMPILED_<i+1>.csv\<close>. Without memoization the result is the parse of group
  \<open>i + 1\<close>; with memoization and that file present it is the table read from it; with
  memoization and the file absent, a returned table is the parse of group \<open>i + 1\<close> and
  has been written to that file.
\<close>

theorem getitem_position_selects_next_group:
  "(\<not> use_disk dl \<longrightarrow>
      Dataloader_getitem L dl w i
        = (map_sum id (Pair (novel dl))
             (from_KK L (root w) (directory dl) (i + 1) (spk dl) (samples dl) (channels dl)), w))
   \<and> (use_disk dl
        \<and> read_file (root w) (directory dl @ [ascii ''COMPILED_'' @ str_int (i + 1) @ ascii ''.csv''])
            = Inr bytes \<longrightarrow>
      Dataloader_getitem L dl w i = (map_sum id (Pair (novel dl)) (read_csv L bytes), w))
   \<and> (use_disk dl
        \<and> \<not> os_path_isfile (root w)
              (directory dl @ [ascii ''COMPILED_'' @ str_int (i + 1) @ ascii ''.csv''])
        \<and> Dataloader_getitem L dl w i = (Inr (m, d), w1) \<longrightarrow>
      from_KK L (root w) (directory dl) (i + 1) (spk dl) (samples dl) (channels dl) = Inr d
      \<and> read_file (root w1) (directory dl @ [ascii ''COMPILED_'' @ str_int (i + 1) @ ascii ''.csv''])
          = Inr (to_csv L d))"
  using Dataloader_getitem_raw [of dl L w i]
    Dataloader_getitem_memo [of dl w i bytes L]
    Dataloader_getitem_persist(1,3) [of dl w i L m d w1]
  unfolding compiled_name_def by blast

subsection \<open>Evaluation on the example session\<close>

lemma ex_raw0:
  "Dataloader_getitem ex_libs ex_dataloader_gap ex_world_gap 0 = (Inr (''meta'', ''r1''), ex_world_gap)"
  by code_simp

lemma ex_persist0:
  "Dataloader_getitem ex_libs ex_dataloader ex_world_extracted 0 = (Inr (''meta'', ''r1''), ex_world_memo)"
  by code_simp

lemma ex_memo_file:
  "read_file (root ex_world_memo) (directory ex_dataloader @ [ascii ''COMPILED_'' @ str_int (0 + 1) @ ascii ''.csv''])
     = Inr ''r1''"
  by code_simp

lemma ex_no_memo_file:
  "\<not> os_path_isfile (root ex_world_extracted)
        (directory ex_dataloader @ [ascii ''COMPILED_'' @ str_int (0 + 1) @ ascii ''.csv''])"
  by code_simp


lemma ex_use_disk: "use_disk ex_dataloader" "\<not> use_disk ex_dataloader_gap"
  by (simp_all add: ex_dataloader_def ex_dataloader_gap_def)

theorem getitem_position_selects_next_group_witness:
  "Dataloader_getitem ex_libs ex_dataloader_gap ex_world_gap 0
     = (map_sum id (Pair (novel ex_dataloader_gap))
          (from_KK ex_libs (root ex_world_gap) (directory ex_dataloader_gap) (0 + 1)
             (spk ex_dataloader_gap) (samples ex_dataloader_gap) (channels ex_dataloader_gap)),
        ex_world_gap)
   \<and> Dataloader_getitem ex_libs ex_dataloader ex_world_memo 0
       = (map_sum id (Pair (novel ex_dataloader)) (read_csv ex_libs ''r1''), ex_world_memo)
   \<and> Dataloader_getitem ex_libs ex_dataloader ex_world_extracted 0
       = (Inr (''meta'', ''r1''), ex_world_memo)
   \<and> from_KK ex_libs (root ex_world_extracted) (directory ex_dataloader) (0 + 1)
         (spk ex_dataloader) (samples ex_dataloader) (channels ex_dataloader) = Inr ''r1''
   \<and> read_file (root ex_world_memo)
         (directory ex_dataloader @ [ascii ''COMPILED_'' @ str_int (0 + 1) @ ascii ''.csv''])
       = Inr (to_csv ex_libs ''r1'')"
proof -
  note inst1 = getitem_position_selects_next_group
    [of ex_dataloader_gap ex_libs ex_world_gap 0]
  note inst2 = getitem_position_selects_next_group
    [of ex_dataloader ex_libs ex_world_memo 0 "''r1''"]
  note inst3 = getitem_position_selects_next_group
    [of ex_dataloader ex_libs ex_world_extracted 0 _ "''meta''" "''r1''" ex_world_memo]
  from inst1 ex_use_disk(2) have a:
    "Dataloader_getitem ex_libs ex_dataloader_gap ex_world_gap 0
     = (map_sum id (Pair (novel ex_dataloader_gap))
          (from_KK ex_libs (root ex_world_gap) (directory ex_dataloader_gap) (0 + 1)
             (spk ex_dataloader_gap) (samples ex_dataloader_gap) (channels ex_dataloader_gap)),
        ex_world_gap)"
    by blast
  from inst2 ex_use_disk(1) ex_memo_file have b:
    "Dataloader_getitem ex_libs ex_dataloader ex_world_memo 0
       = (map_sum id (Pair (novel ex_dataloader)) (read_csv ex_libs ''r1''), ex_world_memo)"
    by blast
  from inst3 ex_use_disk(1) ex_no_memo_file ex_persist0 have c:
    "from_KK ex_libs (root ex_world_extracted) (directory ex_dataloader) (0 + 1)
         (spk ex_dataloader) (samples ex_dataloader) (channels ex_dataloader) = Inr ''r1''
     \<and> read_file (root ex_world_memo)
         (directory ex_dataloader @ [ascii ''COMPILED_'' @ str_int (0 + 1) @ ascii ''.csv''])
       = Inr (to_csv ex_libs ''r1'')"
    by blast
  from a b c ex_persist0 show ?thesis by blast
qed

lemma ex_dataloader_init:
  "Dataloader_init unicode_14 (root ex_world_extracted) [ascii ''out'', ascii ''ratA_3''] ''meta''
       False True 32 (- 1) True
     = Inr ex_dataloader"
  by code_simp

text \<open>
  Claim C1 as stated fails: in the example session with groups 1 and 2, the key 1
  returns the table of group 2 and persists it as \<^verbatim>\<open>COMPILED_2.csv\<close>, and the key 2
  asks for a group 3 that does not exist.
\<close>

theorem key_one_returns_group_two:
  "Dataloader_init unicode_14 (root ex_world_extracted) [ascii ''out'', ascii ''ratA_3''] ''meta''
       False True 32 (- 1) True
     = Inr ex_dataloader
   \<and> Dataloader_len ex_dataloader = 2
   \<and> from_KK ex_libs (root ex_world_extracted) (directory ex_dataloader) 1
        (spk ex_dataloader) (samples ex_dataloader) (channels ex_dataloader) = Inr ''r1''
   \<and> from_KK ex_libs (root ex_world_extracted) (directory ex_dataloader) 2
        (spk ex_dataloader) (samples ex_dataloader) (channels ex_dataloader) = Inr ''r2''
   \<and> fst (Dataloader_getitem ex_libs ex_dataloader ex_world_extracted 1) = Inr (''meta'', ''r2'')
   \<and> fst (Dataloader_getitem ex_libs ex_dataloader ex_world_extracted 1) \<noteq> Inr (''meta'', ''r1'')
   \<and> os_path_isfile (root (snd (Dataloader_getitem ex_libs ex_dataloader ex_world_extracted 1)))
        [ascii ''out'', ascii ''ratA_3'', ascii ''COMPILED_2.csv'']
   \<and> \<not> os_path_isfile (root (snd (Dataloader_getitem ex_libs ex_dataloader ex_world_extracted 1)))
        [ascii ''out'', ascii ''ratA_3'', ascii ''COMPILED_1.csv'']
   \<and> fst (Dataloader_getitem ex_libs ex_dataloader ex_world_extracted 2) = Inl OSError"
  by code_simp

lemma ex_no_memo_file': 
  "\<not> os_path_isfile (root ex_world_extracted) (directory ex_dataloader @ [compiled_name 0])"
  by code_simp

text \<open>
  Claim C9. The name of the memoized file is fixed by the directory and the key alone.
  A table persisted by one \<^verbatim>\<open>Dataloader\<close> is the one a \<^verbatim>\<open>Dataloader\<close> of the same
  directory with any other waveform flag, sample count and channel count reads back, and
  whenever the file is present the result does not depend on these three settings.
\<close>

theorem memo_ignores_configuration:
  "(use_disk dl \<and> \<not> os_path_isfile (root w) (directory dl @ [compiled_name i])
      \<and> Dataloader_getitem L dl w i = (Inr (m, d), w')
      \<and> use_disk dl' \<and> directory dl' = directory dl \<longrightarrow>
    Dataloader_getitem L dl' w' i
      = (map_sum id (Pair (novel dl')) (read_csv L (to_csv L d)), w'))
   \<and> (use_disk dl \<and> os_path_isfile (root w) (directory dl @ [compiled_name i]) \<longrightarrow>
    Dataloader_getitem L (dl\<lparr>spk := s, samples := n, channels := c\<rparr>) w i
      = Dataloader_getitem L dl w i)
   \<and> compiled_name i = ascii ''COMPILED_'' @ str_int (i + 1) @ ascii ''.csv''"
proof (intro conjI impI)
  assume a: "use_disk dl \<and> \<not> os_path_isfile (root w) (directory dl @ [compiled_name i])
      \<and> Dataloader_getitem L dl w i = (Inr (m, d), w')
      \<and> use_disk dl' \<and> directory dl' = directory dl"
  then have "read_file (root w') (directory dl' @ [compiled_name i]) = Inr (to_csv L d)"
    using Dataloader_getitem_persist(3) [of dl w i L m d w'] by simp
  with a show "Dataloader_getitem L dl' w' i
      = (map_sum id (Pair (novel dl')) (read_csv L (to_csv L d)), w')"
    using Dataloader_getitem_memo [of dl' w' i "to_csv L d" L] by blast
next
  assume "use_disk dl \<and> os_path_isfile (root w) (directory dl @ [compiled_name i])"
  then show "Dataloader_getitem L (dl\<lparr>spk := s, samples := n, channels := c\<rparr>) w i
      = Dataloader_getitem L dl w i"
    by (simp add: Dataloader_getitem_def split: sum.splits)
next
  show "compiled_name i = ascii ''COMPILED_'' @ str_int (i + 1) @ ascii ''.csv''"
    by (simp add: compiled_name_def)
qed


lemma ex_memo_isfile:
  "os_path_isfile (root ex_world_memo) (directory ex_dataloader @ [compiled_name 0])"
  by code_simp

theorem memo_ignores_configuration_witness:
  "use_disk ex_dataloader
   \<and> \<not> os_path_isfile (root ex_world_extracted) (directory ex_dataloader @ [compiled_name 0])
   \<and> Dataloader_getitem ex_libs ex_dataloader ex_world_extracted 0
       = (Inr (''meta'', ''r1''), ex_world_memo)
   \<and> Dataloader_getitem ex_libs (ex_dataloader\<lparr>spk := False, samples := 16, channels := 4\<rparr>)
        ex_world_memo 0
       = (map_sum id (Pair (novel (ex_dataloader\<lparr>spk := False, samples := 16, channels := 4\<rparr>)))
            (read_csv ex_libs (to_csv ex_libs ''r1'')), ex_world_memo)
   \<and> os_path_isfile (root ex_world_memo) (directory ex_dataloader @ [compiled_name 0])
   \<and> Dataloader_getitem ex_libs (ex_dataloader\<lparr>spk := False, samples := 16, channels := 4\<rparr>)
        ex_world_memo 0
       = Dataloader_getitem ex_libs ex_dataloader ex_world_memo 0"
proof -
  let ?dl' = "ex_dataloader\<lparr>spk := False, samples := 16, channels := 4\<rparr>"
  have cfg: "use_disk ?dl'" "directory ?dl' = directory ex_dataloader"
    by (simp_all add: ex_dataloader_def)
  from memo_ignores_configuration
    [where dl = ex_dataloader and w = ex_world_extracted and i = 0 and L = ex_libs
       and m = "''meta''" and d = "''r1''" and w' = ex_world_memo and dl' = ?dl']
    ex_use_disk(1) ex_no_memo_file' ex_persist0 cfg
  have a: "Dataloader_getitem ex_libs ?dl' ex_world_memo 0
       = (map_sum id (Pair (novel ?dl')) (read_csv ex_libs (to_csv ex_libs ''r1'')), ex_world_memo)"
    by blast
  from memo_ignores_configuration
    [where dl = ex_dataloader and w = ex_world_memo and i = 0 and L = ex_libs
       and s = False and n = 16 and c = 4]
    ex_use_disk(1) ex_memo_isfile
  have b: "Dataloader_getitem ex_libs ?dl' ex_world_memo 0
       = Dataloader_getitem ex_libs ex_dataloader ex_world_memo 0"
    by blast
  from a b ex_use_disk(1) ex_no_memo_file' ex_persist0 ex_memo_isfile show ?thesis by blast
qed

section \<open>Lookup failures\<close>




lemma ex_gap_init:
  "Dataloader_init unicode_14 ex_fs_gap [ascii ''s''] ''meta''
       False True 32 (- 1) False = Inr ex_dataloader_gap"
  by code_simp


section \<open>Groups: length\<close>

lemma np_array_int64:
  assumes "\<forall>x\<in>set ns. - (2 ^ 63) \<le> x \<and> x < 2 ^ 63"
  shows "np_array ns = ns"
proof (cases "ns = []")
  case True
  then show ?thesis by (simp add: np_array_def)
next
  case False
  from assms have "\<forall>x\<in>set ns. discover x = Int64"
    by (simp add: discover_def)
  with False have "array_dtype ns = Int64"
    by (simp add: array_dtype_def list_ex_iff list_all_iff)
  then show ?thesis by (simp add: np_array_def)
qed

lemma card_eq_Max_iff:
  fixes S :: "int set"
  assumes "finite S" and "S \<noteq> {}" and "\<forall>x\<in>S. 1 \<le> x"
  shows "int (card S) = Max S \<longleftrightarrow> S = {1..Max S}"
proof
  assume "S = {1..Max S}"
  then have "card S = card {1..Max S}" by simp
  moreover have "1 \<le> Max S" using assms Max_in [of S] by blast
  ultimately show "int (card S) = Max S" by simp
next
  assume c: "int (card S) = Max S"
  have sub: "S \<subseteq> {1..Max S}" using assms by auto
  have "1 \<le> Max S" using assms Max_in [of S] by blast
  with c have "card {1..Max S} = card S" by simp
  with sub show "S = {1..Max S}"
    by (intro card_subset_eq) simp_all
qed

text \<open>
  Claim C7, amended. The length of a constructed \<^verbatim>\<open>Dataloader\<close> is the number of
  distinct elements of the array that numpy builds from the integers read from the third
  dot-separated piece of the listed file names that match the group pattern; when these
  integers all fit 64 signed bits it is the number of distinct integers. The length is
  this count and no maximum is taken: for positive group numbers it is the largest group
  number exactly when the numbers found are \<open>1..max\<close>.
\<close>

theorem Dataloader_len_counts_numbers:
  assumes "Dataloader_init U fs dir nov e s n c u = Inr dl"
  shows "\<exists>listing nums. os_listdir fs dir = Inr listing
           \<and> group_numbers U (filter (re_search U group_re) listing) = Inr nums
           \<and> Dataloader_len dl = int (card (set (np_array nums)))
           \<and> ((\<forall>x\<in>set nums. - (2 ^ 63) \<le> x \<and> x < 2 ^ 63) \<longrightarrow>
                 Dataloader_len dl = int (card (set nums)))
           \<and> (nums \<noteq> [] \<and> (\<forall>x\<in>set nums. 1 \<le> x \<and> x < 2 ^ 63) \<longrightarrow>
                 (Dataloader_len dl = Max (set nums) \<longleftrightarrow> set nums = {1..Max (set nums)}))"
proof -
  from assms obtain listing where l: "os_listdir fs dir = Inr listing"
    by (cases "os_listdir fs dir") (simp_all add: Dataloader_init_def)
  let ?g = "group_numbers U (filter (re_search U group_re) listing)"
  from assms l obtain nums where g: "?g = Inr nums"
    by (cases ?g) (simp_all add: Dataloader_init_def)
  from assms l g have "num_files dl = int (length (np_unique (np_array nums)))"
    by (auto simp: Dataloader_init_def)
  then have len: "Dataloader_len dl = int (card (set (np_array nums)))"
    by (simp add: Dataloader_len_def length_np_unique)
  have exact: "Dataloader_len dl = int (card (set nums))"
    if "\<forall>x\<in>set nums. - (2 ^ 63) \<le> x \<and> x < 2 ^ 63"
    using len np_array_int64 [OF that] by simp
  have mx: "Dataloader_len dl = Max (set nums) \<longleftrightarrow> set nums = {1..Max (set nums)}"
    if "nums \<noteq> [] \<and> (\<forall>x\<in>set nums. 1 \<le> x \<and> x < 2 ^ 63)"
  proof -
    from that have "\<forall>x\<in>set nums. - (2 ^ 63) \<le> x \<and> x < 2 ^ 63" by auto
    then have "Dataloader_len dl = int (card (set nums))" by (rule exact)
    moreover from that have "int (card (set nums)) = Max (set nums)
        \<longleftrightarrow> set nums = {1..Max (set nums)}"
      by (intro card_eq_Max_iff) auto
    ultimately show ?thesis by simp
  qed
  from l g len exact mx show ?thesis by blast
qed

lemma ex_session_listing:
  "os_listdir (root ex_world_extracted) [ascii ''out'', ascii ''ratA_3'']
     = Inr [ascii ''ratA_3_sessInfo.mat'', ascii ''ratA_3.clu.1'', ascii ''ratA_3.res.1'', ascii ''ratA_3.res.2'',
            ascii ''ratA_3.spk.1'']"
  by code_simp

lemma ex_session_numbers:
  "group_numbers unicode_14 (filter (re_search unicode_14 group_re)
     [ascii ''ratA_3_sessInfo.mat'', ascii ''ratA_3.clu.1'', ascii ''ratA_3.res.1'', ascii ''ratA_3.res.2'',
      ascii ''ratA_3.spk.1'']) = Inr [1, 1, 2, 1]"
  by code_simp

theorem Dataloader_len_counts_numbers_witness:
  "Dataloader_init unicode_14 (root ex_world_extracted) [ascii ''out'', ascii ''ratA_3''] ''meta''
     False True 32 (- 1) True = Inr ex_dataloader
   \<and> group_numbers unicode_14 (filter (re_search unicode_14 group_re)
        [ascii ''ratA_3_sessInfo.mat'', ascii ''ratA_3.clu.1'', ascii ''ratA_3.res.1'', ascii ''ratA_3.res.2'',
         ascii ''ratA_3.spk.1'']) = Inr [1, 1, 2, 1]
   \<and> Dataloader_len ex_dataloader = int (card (set [1, 1, 2, 1::int]))
   \<and> (Dataloader_len ex_dataloader = Max (set [1, 1, 2, 1])
        \<longleftrightarrow> set [1, 1, 2, 1] = {1..Max (set [1, 1, 2, 1::int])})"
proof -
  from Dataloader_len_counts_numbers [OF ex_dataloader_init] obtain listing nums where
    l: "os_listdir (root ex_world_extracted) [ascii ''out'', ascii ''ratA_3''] = Inr listing"
    and g: "group_numbers unicode_14 (filter (re_search unicode_14 group_re) listing) = Inr nums"
    and exact: "(\<forall>x\<in>set nums. - (2 ^ 63) \<le> x \<and> x < 2 ^ 63) \<longrightarrow>
                 Dataloader_len ex_dataloader = int (card (set nums))"
    and mx: "nums \<noteq> [] \<and> (\<forall>x\<in>set nums. 1 \<le> x \<and> x < 2 ^ 63) \<longrightarrow>
                 (Dataloader_len ex_dataloader = Max (set nums)
                    \<longleftrightarrow> set nums = {1..Max (set nums)})"
    by blast
  from l have "listing = [ascii ''ratA_3_sessInfo.mat'', ascii ''ratA_3.clu.1'', ascii ''ratA_3.res.1'',
                          ascii ''ratA_3.res.2'', ascii ''ratA_3.spk.1'']"
    by (simp only: ex_session_listing sum.inject)
  with g have nums: "nums = [1, 1, 2, 1]"
    by (simp only: ex_session_numbers sum.inject)
  have r: "\<forall>x\<in>set [1, 1, 2, 1::int]. - (2 ^ 63) \<le> x \<and> x < 2 ^ 63"
    and q: "[1, 1, 2, 1::int] \<noteq> [] \<and> (\<forall>x\<in>set [1, 1, 2, 1::int]. 1 \<le> x \<and> x < 2 ^ 63)"
    by simp_all
  from exact r have a: "Dataloader_len ex_dataloader = int (card (set [1, 1, 2, 1::int]))"
    unfolding nums by blast
  from mx q have b: "Dataloader_len ex_dataloader = Max (set [1, 1, 2, 1])
        \<longleftrightarrow> set [1, 1, 2, 1] = {1..Max (set [1, 1, 2, 1::int])}"
    unfolding nums by blast
  from a b ex_dataloader_init ex_session_numbers show ?thesis by blast
qed

text \<open>
  Claim C7 as stated fails: with the group numbers 1 and 3 the length is 2 and the largest
  group number is 3. The tokens \<^verbatim>\<open>1\<close> and \<^verbatim>\<open>01\<close> are one group number, and so are
  \<open>2\<^sup>6\<^sup>3\<close> and \<open>2\<^sup>6\<^sup>3 + 1\<close> beside a small number, which numpy stores as the same
  \<^verbatim>\<open>float64\<close>.
\<close>

theorem group_count_differs_from_maximum:
  "Dataloader_init unicode_14 ex_fs_gap [ascii ''s''] ''meta''
       False True 32 (- 1) False = Inr ex_dataloader_gap
   \<and> os_listdir ex_fs_gap [ascii ''s'']
       = Inr [ascii ''ratA_3.clu.1'', ascii ''ratA_3.res.1'', ascii ''ratA_3.clu.3'', ascii ''ratA_3.res.3'']
   \<and> group_numbers unicode_14 (filter (re_search unicode_14 group_re)
        [ascii ''ratA_3.clu.1'', ascii ''ratA_3.res.1'', ascii ''ratA_3.clu.3'', ascii ''ratA_3.res.3''])
       = Inr [1, 1, 3, 3]
   \<and> Dataloader_len ex_dataloader_gap = 2
   \<and> Dataloader_len ex_dataloader_gap \<noteq> 3
   \<and> map_sum id (\<lambda>nums. length (np_unique (np_array nums)))
         (group_numbers unicode_14 (filter (re_search unicode_14 group_re)
            [ascii ''ratA_3.clu.1'', ascii ''ratA_3.clu.01'']))
       = Inr 1
   \<and> group_numbers unicode_14 (filter (re_search unicode_14 group_re)
        [ascii ''ratA_3.clu.1'', ascii ''ratA_3.clu.9223372036854775808'',
         ascii ''ratA_3.clu.9223372036854775809''])
       = Inr [1, 9223372036854775808, 9223372036854775809]
   \<and> length (np_unique (np_array [1, 9223372036854775808, 9223372036854775809])) = 2"
  by code_simp


section \<open>Sessions: construction\<close>

text \<open>
  Claim C8, amended. With neither directory given (\<^verbatim>\<open>None\<close> or empty) the constructor
  raises the first assertion; with a directory given and \<open>eeg\<close> requested it raises the
  second; nothing is constructed in either case. With a directory given and \<open>eeg\<close> not
  requested it returns a \<^verbatim>\<open>Tarloader\<close> exactly when both resolved directories can be
  listed.
\<close>

theorem Tarloader_init_outcomes:
  "(\<not> truthy td \<and> \<not> truthy ed \<longrightarrow>
      Tarloader_init U fs td ed suffix e s n c u
        = Inl (AssertionError ''One of `tar_directory` or `export_directory` must be provided.''))
   \<and> ((truthy td \<or> truthy ed) \<and> e \<longrightarrow>
      Tarloader_init U fs td ed suffix e s n c u
        = Inl (AssertionError ''eeg cannot be exported at the moment.''))
   \<and> ((truthy td \<or> truthy ed) \<and> \<not> e \<longrightarrow>
      ((\<exists>self. Tarloader_init U fs td ed suffix e s n c u = Inr self)
        \<longleftrightarrow> (\<exists>l1 l2.
               os_listdir fs (path_of (dir_string (if truthy td then td else ed))) = Inr l1
               \<and> os_listdir fs (path_of (dir_string (if truthy ed then ed else td))) = Inr l2)))"
proof (intro conjI impI)
  assume "\<not> truthy td \<and> \<not> truthy ed"
  then show "Tarloader_init U fs td ed suffix e s n c u
        = Inl (AssertionError ''One of `tar_directory` or `export_directory` must be provided.'')"
    by (simp add: Tarloader_init_def)
next
  assume "(truthy td \<or> truthy ed) \<and> e"
  then show "Tarloader_init U fs td ed suffix e s n c u
        = Inl (AssertionError ''eeg cannot be exported at the moment.'')"
    by (simp add: Tarloader_init_def)
next
  assume a: "(truthy td \<or> truthy ed) \<and> \<not> e"
  let ?t = "path_of (dir_string (if truthy td then td else ed))"
  let ?x = "path_of (dir_string (if truthy ed then ed else td))"
  show "(\<exists>self. Tarloader_init U fs td ed suffix e s n c u = Inr self)
        \<longleftrightarrow> (\<exists>l1 l2. os_listdir fs ?t = Inr l1 \<and> os_listdir fs ?x = Inr l2)"
  proof (cases "os_listdir fs ?t")
    case (Inl err)
    with a show ?thesis by (auto simp: Tarloader_init_def Let_def)
  next
    case l1: (Inr l1)
    show ?thesis
    proof (cases "os_listdir fs ?x")
      case (Inl err)
      with a l1 show ?thesis by (auto simp: Tarloader_init_def Let_def)
    next
      case (Inr l2)
      with a l1 show ?thesis by (auto simp: Tarloader_init_def Let_def)
    qed
  qed
qed

lemma ex_truthy:
  "truthy (Some (ascii ''tars''))" "truthy (Some (ascii ''out''))"
  "\<not> truthy None" "\<not> truthy (Some [])"
  by (simp_all add: truthy_def ascii_def)

lemma ex_listing_paths:
  "os_listdir ex_fs (path_of (dir_string (if truthy (Some (ascii ''tars'')) then Some (ascii ''tars'') else Some (ascii ''out''))))
     = Inr [ascii ''ratA_3.tar.gz'', ascii ''ratA_3_spk.tar.gz'', ascii ''notes.txt'']"
  "os_listdir ex_fs (path_of (dir_string (if truthy (Some (ascii ''out'')) then Some (ascii ''out'') else Some (ascii ''tars''))))
     = Inr []"
  by code_simp+

theorem Tarloader_init_outcomes_witness:
  "Tarloader_init unicode_14 ex_fs None (Some []) (ascii ''.tar.gz'') False True 32 (- 1) True
     = Inl (AssertionError ''One of `tar_directory` or `export_directory` must be provided.'')
   \<and> Tarloader_init unicode_14 ex_fs (Some (ascii ''tars'')) (Some (ascii ''out'')) (ascii ''.tar.gz'')
        True True 32 (- 1) True
     = Inl (AssertionError ''eeg cannot be exported at the moment.'')
   \<and> (\<exists>self. Tarloader_init unicode_14 ex_fs (Some (ascii ''tars'')) (Some (ascii ''out'')) (ascii ''.tar.gz'')
        False True 32 (- 1) True
         = Inr self)"
proof -
  from Tarloader_init_outcomes
    [where td = None and ed = "Some []" and fs = ex_fs and suffix = "ascii ''.tar.gz''" and e = False
       and s = True and n = 32 and c = "- 1" and u = True] ex_truthy
  have a: "Tarloader_init unicode_14 ex_fs None (Some []) (ascii ''.tar.gz'')
       False True 32 (- 1) True
     = Inl (AssertionError ''One of `tar_directory` or `export_directory` must be provided.'')"
    by blast
  from Tarloader_init_outcomes
    [where td = "Some (ascii ''tars'')" and ed = "Some (ascii ''out'')" and fs = ex_fs and suffix = "ascii ''.tar.gz''"
       and e = True and s = True and n = 32 and c = "- 1" and u = True] ex_truthy
  have b: "Tarloader_init unicode_14 ex_fs (Some (ascii ''tars'')) (Some (ascii ''out'')) (ascii ''.tar.gz'')
       True True 32 (- 1) True
     = Inl (AssertionError ''eeg cannot be exported at the moment.'')"
    by blast
  from Tarloader_init_outcomes
    [where td = "Some (ascii ''tars'')" and ed = "Some (ascii ''out'')" and fs = ex_fs and suffix = "ascii ''.tar.gz''"
       and e = False and s = True and n = 32 and c = "- 1" and u = True] ex_truthy ex_listing_paths
  have c: "\<exists>self. Tarloader_init unicode_14 ex_fs (Some (ascii ''tars'')) (Some (ascii ''out'')) (ascii ''.tar.gz'')
       False True 32 (- 1) True
         = Inr self"
    by blast
  from a b c show ?thesis by blast
qed

text \<open>
  Claim C8 as stated fails: with an existing archive directory and an extraction target
  that does not exist yet, or with one directory that does not exist, \<open>eeg\<close> is not
  requested and the constructor raises the error of \<^verbatim>\<open>os.listdir\<close>.
\<close>

theorem missing_target_directory_fails:
  "truthy (Some (ascii ''tars'')) \<and> truthy (Some (ascii ''fresh''))
   \<and> os_listdir ex_fs (path_of (ascii ''tars''))
       = Inr [ascii ''ratA_3.tar.gz'', ascii ''ratA_3_spk.tar.gz'', ascii ''notes.txt'']
   \<and> Tarloader_init unicode_14 ex_fs (Some (ascii ''tars'')) (Some (ascii ''fresh'')) (ascii ''.tar.gz'')
        False True 32 (- 1) True
       = Inl OSError
   \<and> Tarloader_init unicode_14 ex_fs (Some (ascii ''fresh'')) None (ascii ''.tar.gz'')
        False True 32 (- 1) True
       = Inl OSError"
  by code_simp

end
